theory Spec2Isabelle
  imports Complex_Main
begin

section \<open>Spin population models of gwpopulation (models/spin.py)\<close>

text \<open>
  The module evaluates population densities over a dataset, a Python dict from the names
  of the spin observables to numpy arrays. Floating-point numbers are idealised as
  \<^typ>\<open>real\<close>: rounding, overflow, infinities and NaN are outside this development, and
  a division by zero follows HOL (\<open>x / 0 = 0\<close>) where numpy would produce an infinity or
  a NaN without raising.

  The development has three layers: the array backend (the functions of \<open>xp\<close> that the
  module calls, with numpy's broadcasting), a store of array objects with the exceptions
  of Python as values, and the functions of the module themselves.
\<close>

subsection \<open>Exceptions\<close>

text \<open>
  \<open>KeyError\<close> is raised by \<open>dataset[key]\<close> on a missing key, \<open>ValueError\<close> by numpy
  when two shapes cannot be broadcast together, \<open>IndexError\<close> by \<open>trapz\<close> on an array
  without an axis. \<open>BadReference\<close> is no Python exception: it marks a read through a
  reference that the store does not hold, which a Python program cannot construct.
\<close>

datatype error = KeyError string | ValueError | IndexError | BadReference

definition ebind :: "error + 'a \<Rightarrow> ('a \<Rightarrow> error + 'b) \<Rightarrow> error + 'b" where
  "ebind m f = (case m of Inl e \<Rightarrow> Inl e | Inr v \<Rightarrow> f v)"

subsection \<open>Arrays and broadcasting\<close>

text \<open>
  Arrays of rank 0, 1 and 2: the samples of a dataset are one- or two-dimensional, the
  normalisation grid is two-dimensional, and the integral of a one-dimensional array is
  a scalar. A rank-2 array is the list of its rows; its number of columns is the length
  of its first row, so an array without rows has no columns here.
\<close>

datatype ndarray = A0 real | A1 "real list" | A2 "real list list"

fun amap :: "(real \<Rightarrow> real) \<Rightarrow> ndarray \<Rightarrow> ndarray" where
  "amap f (A0 x) = A0 (f x)"
| "amap f (A1 xs) = A1 (map f xs)"
| "amap f (A2 rs) = A2 (map (map f) rs)"

fun rank :: "ndarray \<Rightarrow> nat" where
  "rank (A0 x) = 0"
| "rank (A1 xs) = 1"
| "rank (A2 rs) = 2"

text \<open>An array seen as a matrix: missing leading axes have extent 1, as in numpy.\<close>

fun rows_of :: "ndarray \<Rightarrow> real list list" where
  "rows_of (A0 x) = [[x]]"
| "rows_of (A1 xs) = [xs]"
| "rows_of (A2 rs) = rs"

definition ncols :: "'a list list \<Rightarrow> nat" where
  "ncols rs = (case rs of [] \<Rightarrow> 0 | r # _ \<Rightarrow> length r)"

definition shape :: "ndarray \<Rightarrow> nat list" where
  "shape a = drop (2 - rank a) [length (rows_of a), ncols (rows_of a)]"

definition pack :: "nat \<Rightarrow> real list list \<Rightarrow> ndarray" where
  "pack k rs = (if k = 0 then A0 (hd (hd rs)) else if k = 1 then A1 (hd rs) else A2 rs)"

text \<open>
  Two extents are compatible when they are equal or one of them is 1; the extent 1 is
  stretched to the other one.
\<close>

definition compat :: "nat \<Rightarrow> nat \<Rightarrow> bool" where
  "compat m n \<longleftrightarrow> m = n \<or> m = 1 \<or> n = 1"

definition bdim :: "nat \<Rightarrow> nat \<Rightarrow> nat" where
  "bdim m n = (if m = 1 then n else m)"

definition stretch :: "nat \<Rightarrow> 'a list \<Rightarrow> 'a list" where
  "stretch n xs = (if length xs = n \<or> xs = [] then xs else replicate n (hd xs))"

definition broadcastable :: "ndarray \<Rightarrow> ndarray \<Rightarrow> bool" where
  "broadcastable a b \<longleftrightarrow>
     compat (length (rows_of a)) (length (rows_of b)) \<and>
     compat (ncols (rows_of a)) (ncols (rows_of b))"

definition zip_rows :: "(real \<Rightarrow> real \<Rightarrow> real) \<Rightarrow> real list list \<Rightarrow> real list list
    \<Rightarrow> real list list" where
  "zip_rows f rs qs =
     (let r = bdim (length rs) (length qs); c = bdim (ncols rs) (ncols qs)
      in map2 (\<lambda>u v. map2 f (stretch c u) (stretch c v)) (stretch r rs) (stretch r qs))"

definition broadcast :: "(real \<Rightarrow> real \<Rightarrow> real) \<Rightarrow> ndarray \<Rightarrow> ndarray \<Rightarrow> ndarray" where
  "broadcast f a b = pack (max (rank a) (rank b)) (zip_rows f (rows_of a) (rows_of b))"

text \<open>
  A binary operator of numpy (\<open>+\<close>, \<open>-\<close>, \<open>*\<close>, \<open>/\<close>) on two arrays: the operator is
  applied elementwise after broadcasting, and shapes that cannot be broadcast together
  raise.
\<close>

definition bop :: "(real \<Rightarrow> real \<Rightarrow> real) \<Rightarrow> ndarray \<Rightarrow> ndarray \<Rightarrow> error + ndarray" where
  "bop f a b = (if broadcastable a b then Inr (broadcast f a b) else Inl ValueError)"

subsection \<open>The functions of the backend\<close>

text \<open>
  \<open>xp.linspace(start, stop, num)\<close>: \<open>arange(num) * step + start\<close> with the last entry
  overwritten by \<open>stop\<close> when there are at least two.
\<close>

definition linspace :: "real \<Rightarrow> real \<Rightarrow> nat \<Rightarrow> real list" where
  "linspace start stop num =
     (if num \<le> 1 then replicate num start
      else (map (\<lambda>i. real i * ((stop - start) / real (num - 1)) + start) [0..<num])
             [num - 1 := stop])"

text \<open>
  \<open>xp.meshgrid(x, y)\<close> with the default \<open>indexing='xy'\<close>: both results have
  \<open>len(y)\<close> rows and \<open>len(x)\<close> columns; the first repeats \<open>x\<close> in every row, the second
  repeats \<open>y[i]\<close> along row \<open>i\<close>. The arguments are read as flat sequences.
\<close>

definition flat :: "ndarray \<Rightarrow> real list" where
  "flat a = concat (rows_of a)"

definition meshgrid :: "ndarray \<Rightarrow> ndarray \<Rightarrow> ndarray \<times> ndarray" where
  "meshgrid x y =
     (A2 (replicate (length (flat y)) (flat x)),
      A2 (map (\<lambda>v. replicate (length (flat x)) v) (flat y)))"

text \<open>\<open>diff(x) = x[1:] - x[:-1]\<close>.\<close>

definition diff :: "real list \<Rightarrow> real list" where
  "diff x = map2 (-) (tl x) (butlast x)"

text \<open>
  \<open>xp.trapz(y=y, axis=-1, x=x)\<close>. For a one-dimensional \<open>x\<close>, \<open>d = diff(x)\<close> is
  reshaped to lie along the last axis of \<open>y\<close>; otherwise \<open>d = diff(x, axis=-1)\<close>. The
  result is \<open>(d * (y[..., 1:] + y[..., :-1]) / 2.0).sum(-1)\<close>. The product broadcasts, so
  it raises when the extent of \<open>d\<close> and that of the last axis of \<open>y\<close> minus one are
  incompatible.
\<close>

fun last_axis_tl :: "ndarray \<Rightarrow> ndarray" where
  "last_axis_tl (A0 x) = A0 x"
| "last_axis_tl (A1 xs) = A1 (tl xs)"
| "last_axis_tl (A2 rs) = A2 (map tl rs)"

fun last_axis_butlast :: "ndarray \<Rightarrow> ndarray" where
  "last_axis_butlast (A0 x) = A0 x"
| "last_axis_butlast (A1 xs) = A1 (butlast xs)"
| "last_axis_butlast (A2 rs) = A2 (map butlast rs)"

fun sum_last_axis :: "ndarray \<Rightarrow> error + ndarray" where
  "sum_last_axis (A0 x) = Inl IndexError"
| "sum_last_axis (A1 xs) = Inr (A0 (sum_list xs))"
| "sum_last_axis (A2 rs) = Inr (A1 (map sum_list rs))"

fun trapz_d :: "ndarray \<Rightarrow> ndarray \<Rightarrow> error + ndarray" where
  "trapz_d y (A0 x) = Inl ValueError"
| "trapz_d y (A1 xs) = (if rank y = 0 then Inl IndexError else Inr (A1 (diff xs)))"
| "trapz_d y (A2 rs) = Inr (A2 (map diff rs))"

definition trapz :: "ndarray \<Rightarrow> ndarray \<Rightarrow> error + ndarray" where
  "trapz y x =
     ebind (trapz_d y x) (\<lambda>d.
       if rank y = 0 then Inl IndexError
       else ebind (bop (+) (last_axis_tl y) (last_axis_butlast y)) (\<lambda>s.
            ebind (bop (*) d s) (\<lambda>p.
            sum_last_axis (amap (\<lambda>v. v / 2) p))))"

subsection \<open>The store\<close>

text \<open>
  Arrays are objects: a name or a dict entry holds a reference, and \<open>*=\<close> and \<open>/=\<close>
  change the referenced array in place. The store holds the arrays, addressed by their
  position; a new array is appended. The intermediate results of an expression are
  values: no name refers to them. The store also records the calls of the two density
  primitives, in order.
\<close>

type_synonym addr = nat

datatype prim_call = BetaDist addr real real real | TruncNorm addr real real real real

record store =
  heap :: "ndarray list"
  calls :: "prim_call list"

type_synonym 'a py = "store \<Rightarrow> (error + 'a) \<times> store"

type_synonym dataset = "string \<rightharpoonup> addr"

definition pret :: "'a \<Rightarrow> 'a py" where
  "pret x s = (Inr x, s)"

definition praise :: "error \<Rightarrow> 'a py" where
  "praise e s = (Inl e, s)"

definition pbind :: "'a py \<Rightarrow> ('a \<Rightarrow> 'b py) \<Rightarrow> 'b py" where
  "pbind m f s = (case m s of (Inl e, s') \<Rightarrow> (Inl e, s') | (Inr x, s') \<Rightarrow> f x s')"

definition lift :: "error + 'a \<Rightarrow> 'a py" where
  "lift r s = (r, s)"

definition new_array :: "ndarray \<Rightarrow> addr py" where
  "new_array v s = (Inr (length (heap s)), s\<lparr>heap := heap s @ [v]\<rparr>)"

definition load :: "addr \<Rightarrow> ndarray py" where
  "load a s = (if a < length (heap s) then (Inr (heap s ! a), s) else (Inl BadReference, s))"

text \<open>The arrays of a dataset exist in the store.\<close>

definition dataset_in :: "dataset \<Rightarrow> store \<Rightarrow> bool" where
  "dataset_in d s \<longleftrightarrow> (\<forall>a \<in> ran d. a < length (heap s))"

text \<open>\<open>dataset[key]\<close>.\<close>

definition getitem :: "dataset \<Rightarrow> string \<Rightarrow> addr py" where
  "getitem d k = (case d k of None \<Rightarrow> praise (KeyError k) | Some a \<Rightarrow> pret a)"

text \<open>
  \<open>a op= v\<close> on an array: the result of the broadcast operation is written into \<open>a\<close>,
  which numpy refuses when the result has another shape than \<open>a\<close>.
\<close>

definition inplace :: "(real \<Rightarrow> real \<Rightarrow> real) \<Rightarrow> addr \<Rightarrow> ndarray \<Rightarrow> unit py" where
  "inplace f a v s =
     (if a < length (heap s)
      then (case bop f (heap s ! a) v of
              Inl e \<Rightarrow> (Inl e, s)
            | Inr w \<Rightarrow> if shape w = shape (heap s ! a)
                       then (Inr (), s\<lparr>heap := (heap s)[a := w]\<rparr>)
                       else (Inl ValueError, s))
      else (Inl BadReference, s))"

definition log_call :: "prim_call \<Rightarrow> unit py" where
  "log_call c s = (Inr (), s\<lparr>calls := calls s @ [c]\<rparr>)"

text \<open>The value a computation returns: the array behind the returned reference.\<close>

definition value_of :: "addr py \<Rightarrow> store \<Rightarrow> error + ndarray" where
  "value_of m s = (case m s of (Inl e, s') \<Rightarrow> Inl e | (Inr r, s') \<Rightarrow> fst (load r s'))"

text \<open>The same for a function that may return the integer \<open>0\<close>.\<close>

datatype pyval = PyInt int | NdArray addr

datatype pyobj = VInt int | VArray ndarray

definition result_of :: "pyval py \<Rightarrow> store \<Rightarrow> error + pyobj" where
  "result_of m s =
     (case m s of
        (Inl e, s') \<Rightarrow> Inl e
      | (Inr (PyInt n), s') \<Rightarrow> Inr (VInt n)
      | (Inr (NdArray r), s') \<Rightarrow> ebind (fst (load r s')) (\<lambda>v. Inr (VArray v)))"

subsection \<open>The density primitives\<close>

text \<open>
  Modelled from the spec: the module \<open>..utils\<close>, from which \<open>beta_dist\<close> and
  \<open>truncnorm\<close> are imported, is missing. The spec describes them as supplied
  primitives that evaluate a density elementwise and return an array of the shape of the
  input, without raising: \<open>BetaDensity(x, alpha, beta, scale)\<close>, the Beta density
  rescaled to \<open>[0, scale]\<close>, and \<open>TruncGaussian(x, mu, sigma, low, high)\<close>, the Gaussian
  density truncated to \<open>[low, high]\<close>. The scalar densities are parameters \<open>bd\<close> and
  \<open>tn\<close> of everything below. The positional order of \<open>truncnorm\<close> is
  \<open>(xx, mu, sigma, high, low)\<close>: the orientation model passes \<open>1, -1\<close> for the bounds
  that the spec gives as \<open>[-1, 1]\<close>. Each call is recorded in the store and returns a
  new array.
\<close>

type_synonym beta_density = "real \<Rightarrow> real \<Rightarrow> real \<Rightarrow> real \<Rightarrow> real"

type_synonym truncnorm_density = "real \<Rightarrow> real \<Rightarrow> real \<Rightarrow> real \<Rightarrow> real \<Rightarrow> real"

definition beta_dist :: "beta_density \<Rightarrow> addr \<Rightarrow> real \<Rightarrow> real \<Rightarrow> real \<Rightarrow> addr py" where
  "beta_dist bd xx alpha beta scale =
     pbind (log_call (BetaDist xx alpha beta scale)) (\<lambda>_.
     pbind (load xx) (\<lambda>v.
     new_array (amap (\<lambda>x. bd x alpha beta scale) v)))"

definition truncnorm :: "truncnorm_density \<Rightarrow> addr \<Rightarrow> real \<Rightarrow> real \<Rightarrow> real \<Rightarrow> real \<Rightarrow> addr py"
  where
  "truncnorm tn xx mu sigma high low =
     pbind (log_call (TruncNorm xx mu sigma high low)) (\<lambda>_.
     pbind (load xx) (\<lambda>v.
     new_array (amap (\<lambda>x. tn x mu sigma high low) v)))"

subsection \<open>Spin magnitudes\<close>

text \<open>
  The guard returns the Python integer \<open>0\<close>; otherwise the result is the product of
  the two arrays that \<open>beta_dist\<close> returns.
\<close>

definition independent_spin_magnitude_beta ::
  "beta_density \<Rightarrow> dataset \<Rightarrow> real \<Rightarrow> real \<Rightarrow> real \<Rightarrow> real \<Rightarrow> real \<Rightarrow> real \<Rightarrow> pyval py" where
  "independent_spin_magnitude_beta bd dataset alpha_chi_1 alpha_chi_2 beta_chi_1 beta_chi_2
       amax_1 amax_2 =
     (if alpha_chi_1 < 0 \<or> beta_chi_1 < 0 \<or> alpha_chi_2 < 0 \<or> beta_chi_2 < 0
      then pret (PyInt 0)
      else pbind (getitem dataset ''a_1'') (\<lambda>a_1.
           pbind (beta_dist bd a_1 alpha_chi_1 beta_chi_1 amax_1) (\<lambda>p_1.
           pbind (getitem dataset ''a_2'') (\<lambda>a_2.
           pbind (beta_dist bd a_2 alpha_chi_2 beta_chi_2 amax_2) (\<lambda>p_2.
           pbind (load p_1) (\<lambda>u.
           pbind (load p_2) (\<lambda>v.
           pbind (lift (bop (*) u v)) (\<lambda>w.
           pbind (new_array w) (\<lambda>prior.
           pret (NdArray prior))))))))))"

definition iid_spin_magnitude_beta ::
  "beta_density \<Rightarrow> dataset \<Rightarrow> real \<Rightarrow> real \<Rightarrow> real \<Rightarrow> pyval py" where
  "iid_spin_magnitude_beta bd dataset amax alpha_chi beta_chi =
     independent_spin_magnitude_beta bd dataset alpha_chi alpha_chi beta_chi beta_chi amax amax"

subsection \<open>Spin orientations\<close>

definition independent_spin_orientation_gaussian_isotropic ::
  "truncnorm_density \<Rightarrow> dataset \<Rightarrow> real \<Rightarrow> real \<Rightarrow> real \<Rightarrow> addr py" where
  "independent_spin_orientation_gaussian_isotropic tn dataset xi_spin sigma_1 sigma_2 =
     pbind (getitem dataset ''cos_tilt_1'') (\<lambda>c_1.
     pbind (truncnorm tn c_1 1 sigma_1 1 (-1)) (\<lambda>t_1.
     pbind (load t_1) (\<lambda>u.
     pbind (getitem dataset ''cos_tilt_2'') (\<lambda>c_2.
     pbind (truncnorm tn c_2 1 sigma_2 1 (-1)) (\<lambda>t_2.
     pbind (load t_2) (\<lambda>v.
     pbind (lift (bop (*) (amap (\<lambda>x. xi_spin * x) u) v)) (\<lambda>w.
     new_array (amap (\<lambda>x. (1 - xi_spin) / 4 + x) w))))))))"

definition iid_spin_orientation_gaussian_isotropic ::
  "truncnorm_density \<Rightarrow> dataset \<Rightarrow> real \<Rightarrow> real \<Rightarrow> addr py" where
  "iid_spin_orientation_gaussian_isotropic tn dataset xi_spin sigma_spin =
     independent_spin_orientation_gaussian_isotropic tn dataset xi_spin sigma_spin sigma_spin"

subsection \<open>Independently and identically distributed spins\<close>

text \<open>\<open>array * other\<close>, where \<open>other\<close> is an array or a Python integer; the result is new.\<close>

definition array_times :: "addr \<Rightarrow> pyval \<Rightarrow> addr py" where
  "array_times a other =
     pbind (load a) (\<lambda>u.
       case other of
         PyInt n \<Rightarrow> new_array (amap (\<lambda>x. x * of_int n) u)
       | NdArray b \<Rightarrow> pbind (load b) (\<lambda>v. pbind (lift (bop (*) u v)) new_array))"

definition iid_spin ::
  "beta_density \<Rightarrow> truncnorm_density \<Rightarrow> dataset \<Rightarrow> real \<Rightarrow> real \<Rightarrow> real \<Rightarrow> real \<Rightarrow> real
     \<Rightarrow> addr py" where
  "iid_spin bd tn dataset xi_spin sigma_spin amax alpha_chi beta_chi =
     pbind (iid_spin_orientation_gaussian_isotropic tn dataset xi_spin sigma_spin) (\<lambda>orientation.
     pbind (iid_spin_magnitude_beta bd dataset amax alpha_chi beta_chi) (\<lambda>magnitude.
     array_times orientation magnitude))"

subsection \<open>Effective-spin marginals\<close>

definition gaussian_chi_eff :: "truncnorm_density \<Rightarrow> dataset \<Rightarrow> real \<Rightarrow> real \<Rightarrow> addr py" where
  "gaussian_chi_eff tn dataset mu_chi_eff sigma_chi_eff =
     pbind (getitem dataset ''chi_eff'') (\<lambda>x. truncnorm tn x mu_chi_eff sigma_chi_eff 1 (-1))"

definition gaussian_chi_p :: "truncnorm_density \<Rightarrow> dataset \<Rightarrow> real \<Rightarrow> real \<Rightarrow> addr py" where
  "gaussian_chi_p tn dataset mu_chi_p sigma_chi_p =
     pbind (getitem dataset ''chi_p'') (\<lambda>x. truncnorm tn x mu_chi_p sigma_chi_p 1 0)"

subsection \<open>The correlated model of \<open>chi_eff\<close> and \<open>chi_p\<close>\<close>

text \<open>
  The attributes of an instance are references to arrays, and the dict
  \<open>normalization_data\<close> refers to the two grids. The module names its backend \<open>xp\<close>
  without importing it; \<open>xp\<close> is taken to be the array backend modelled above.
\<close>

record GaussianChiEffChiP =
  chi_eff :: addr
  chi_p :: addr
  chi_eff_grid :: addr
  chi_p_grid :: addr
  normalization_data :: dataset

definition GaussianChiEffChiP_init :: "GaussianChiEffChiP py" where
  "GaussianChiEffChiP_init =
     pbind (new_array (A1 (linspace (-1) 1 100))) (\<lambda>self_chi_eff.
     pbind (new_array (A1 (linspace 0 1 50))) (\<lambda>self_chi_p.
     pbind (load self_chi_eff) (\<lambda>x.
     pbind (load self_chi_p) (\<lambda>y.
     pbind (new_array (fst (meshgrid x y))) (\<lambda>self_chi_eff_grid.
     pbind (new_array (snd (meshgrid x y))) (\<lambda>self_chi_p_grid.
     pret \<lparr>chi_eff = self_chi_eff, chi_p = self_chi_p,
           chi_eff_grid = self_chi_eff_grid, chi_p_grid = self_chi_p_grid,
           normalization_data =
             [''chi_eff'' \<mapsto> self_chi_eff_grid, ''chi_p'' \<mapsto> self_chi_p_grid]\<rparr>))))))"

definition GaussianChiEffChiP_2d_probability ::
  "GaussianChiEffChiP \<Rightarrow> dataset \<Rightarrow> real \<Rightarrow> real \<Rightarrow> real \<Rightarrow> real \<Rightarrow> real \<Rightarrow> addr py" where
  "GaussianChiEffChiP_2d_probability self dataset mu_chi_eff sigma_chi_eff mu_chi_p sigma_chi_p
       spin_covariance =
     (let determinant = sigma_chi_eff ^ 2 * sigma_chi_p ^ 2 * (1 - spin_covariance) in
      pbind (getitem dataset ''chi_eff'') (\<lambda>d_chi_eff.
      pbind (load d_chi_eff) (\<lambda>x.
      let chi_eff_residual = amap (\<lambda>v. v * sigma_chi_eff) (amap (\<lambda>v. mu_chi_eff - v) x) in
      pbind (getitem dataset ''chi_p'') (\<lambda>d_chi_p.
      pbind (load d_chi_p) (\<lambda>y.
      let chi_p_resiudal = amap (\<lambda>v. v * sigma_chi_p) (amap (\<lambda>v. mu_chi_p - v) y) in
      pbind (lift (bop (+) (amap (\<lambda>v. v ^ 2) chi_eff_residual)
                           (amap (\<lambda>v. v ^ 2) chi_p_resiudal))) (\<lambda>squares.
      pbind (lift (bop (*) (amap (\<lambda>v. 2 * v) chi_eff_residual) chi_p_resiudal)) (\<lambda>cross.
      pbind (lift (bop (-) squares (amap (\<lambda>v. v * spin_covariance) cross))) (\<lambda>q.
      new_array
        (amap exp (amap (\<lambda>v. v / determinant) (amap (\<lambda>v. v / 2) (amap uminus q))))))))))))"

definition GaussianChiEffChiP_normalization ::
  "GaussianChiEffChiP \<Rightarrow> real \<Rightarrow> real \<Rightarrow> real \<Rightarrow> real \<Rightarrow> real \<Rightarrow> ndarray py" where
  "GaussianChiEffChiP_normalization self mu_chi_eff sigma_chi_eff mu_chi_p sigma_chi_p
       spin_covariance =
     pbind (GaussianChiEffChiP_2d_probability self (normalization_data self)
              mu_chi_eff sigma_chi_eff mu_chi_p sigma_chi_p spin_covariance) (\<lambda>prob.
     pbind (load prob) (\<lambda>y.
     pbind (load (chi_p self)) (\<lambda>x_inner.
     pbind (lift (trapz y x_inner)) (\<lambda>inner.
     pbind (load (chi_eff self)) (\<lambda>x_outer.
     lift (trapz inner x_outer))))))"

definition GaussianChiEffChiP_call ::
  "truncnorm_density \<Rightarrow> GaussianChiEffChiP \<Rightarrow> dataset \<Rightarrow> real \<Rightarrow> real \<Rightarrow> real \<Rightarrow> real \<Rightarrow> real
     \<Rightarrow> addr py" where
  "GaussianChiEffChiP_call tn self dataset mu_chi_eff sigma_chi_eff mu_chi_p sigma_chi_p
       spin_covariance =
     (if spin_covariance = 0
      then pbind (gaussian_chi_eff tn dataset mu_chi_eff sigma_chi_eff) (\<lambda>prob.
           pbind (gaussian_chi_p tn dataset mu_chi_p sigma_chi_p) (\<lambda>other.
           pbind (load other) (\<lambda>v.
           pbind (inplace (*) prob v) (\<lambda>_.
           pret prob))))
      else pbind (GaussianChiEffChiP_2d_probability self dataset
                    mu_chi_eff sigma_chi_eff mu_chi_p sigma_chi_p spin_covariance) (\<lambda>prob.
           pbind (GaussianChiEffChiP_normalization self
                    mu_chi_eff sigma_chi_eff mu_chi_p sigma_chi_p spin_covariance) (\<lambda>normalization.
           pbind (inplace (/) prob normalization) (\<lambda>_.
           pret prob))))"

subsection \<open>Reachable states of an instance\<close>

text \<open>
  An instance is constructed on some store; afterwards it is called, with any density,
  dataset and hyper-parameters, whether the call returns or raises, and its caller may
  create further arrays, such as the datasets it passes.
\<close>

inductive reachable :: "GaussianChiEffChiP \<Rightarrow> store \<Rightarrow> bool" where
  construct:
    "GaussianChiEffChiP_init s = (Inr self, s') \<Longrightarrow> reachable self s'"
| call:
    "reachable self s \<Longrightarrow>
     GaussianChiEffChiP_call tn self dataset mu_chi_eff sigma_chi_eff mu_chi_p sigma_chi_p
       spin_covariance s = (r, s') \<Longrightarrow>
     reachable self s'"
| create:
    "reachable self s \<Longrightarrow> new_array v s = (r, s') \<Longrightarrow> reachable self s'"

text \<open>
  The grid of the construction, written out: 100 points from \<open>-1\<close> to \<open>1\<close> in steps of
  \<open>2/99\<close>, 50 points from \<open>0\<close> to \<open>1\<close> in steps of \<open>1/49\<close>, and their two
  coordinate matrices of 50 rows and 100 columns.
\<close>

definition chi_eff_points :: "real list" where
  "chi_eff_points = map (\<lambda>i. - 1 + 2 * real i / 99) [0..<100]"

definition chi_p_points :: "real list" where
  "chi_p_points = map (\<lambda>j. real j / 49) [0..<50]"

definition grid_intact :: "GaussianChiEffChiP \<Rightarrow> store \<Rightarrow> bool" where
  "grid_intact self s \<longleftrightarrow>
     fst (load (chi_eff self) s) = Inr (A1 chi_eff_points) \<and>
     fst (load (chi_p self) s) = Inr (A1 chi_p_points) \<and>
     fst (load (chi_eff_grid self) s) = Inr (A2 (replicate 50 chi_eff_points)) \<and>
     fst (load (chi_p_grid self) s) = Inr (A2 (map (replicate 100) chi_p_points)) \<and>
     normalization_data self ''chi_eff'' = Some (chi_eff_grid self) \<and>
     normalization_data self ''chi_p'' = Some (chi_p_grid self)"

subsection \<open>Products of returned values\<close>

text \<open>The product of what a magnitude model returns with an array.\<close>

fun times_array :: "pyobj \<Rightarrow> ndarray \<Rightarrow> error + ndarray" where
  "times_array (VInt n) b = Inr (amap (\<lambda>x. of_int n * x) b)"
| "times_array (VArray a) b = bop (*) a b"

subsection \<open>Arrays that a computation leaves alone\<close>

text \<open>
  \<open>keeps H s\<close>: the store \<open>s\<close> still begins with the arrays \<open>H\<close>. A computation is
  framed by \<open>H\<close> when it keeps \<open>H\<close> from every store that does, whether it returns or
  raises, and what it returns satisfies \<open>Q\<close>.
\<close>

definition keeps :: "ndarray list \<Rightarrow> store \<Rightarrow> bool" where
  "keeps H s \<longleftrightarrow> take (length H) (heap s) = H"

definition framed :: "ndarray list \<Rightarrow> 'a py \<Rightarrow> ('a \<Rightarrow> bool) \<Rightarrow> bool" where
  "framed H m Q \<longleftrightarrow>
     (\<forall>s. keeps H s \<longrightarrow> keeps H (snd (m s)) \<and> (\<forall>x. fst (m s) = Inr x \<longrightarrow> Q x))"

subsection \<open>An example\<close>

text \<open>
  An instance constructed on the empty store, followed by two arrays of two samples each
  that serve as every observable of a dataset, and two flat densities.
\<close>

definition empty_store :: store where
  "empty_store = \<lparr>heap = [], calls = []\<rparr>"

definition example_self :: GaussianChiEffChiP where
  "example_self =
     \<lparr>chi_eff = 0, chi_p = 1, chi_eff_grid = 2, chi_p_grid = 3,
      normalization_data = [''chi_eff'' \<mapsto> 2, ''chi_p'' \<mapsto> 3]\<rparr>"

definition example_store :: store where
  "example_store =
     snd (new_array (A1 [1, 1 / 2])
       (snd (new_array (A1 [0, 1 / 2]) (snd (GaussianChiEffChiP_init empty_store)))))"

definition example_dataset :: dataset where
  "example_dataset =
     [''a_1'' \<mapsto> 4, ''a_2'' \<mapsto> 5, ''cos_tilt_1'' \<mapsto> 4, ''cos_tilt_2'' \<mapsto> 5,
      ''chi_eff'' \<mapsto> 4, ''chi_p'' \<mapsto> 5]"



definition flat_beta :: beta_density where
  "flat_beta x alpha beta scale = 1 / scale"

definition flat_truncnorm :: truncnorm_density where
  "flat_truncnorm x mu sigma high low = 1 / (high - low)"

section \<open>Lemmas\<close>

subsection \<open>Lists and broadcasting\<close>

lemma stretch_map: "stretch n (map h xs) = map h (stretch n xs)"
  by (cases xs) (auto simp: stretch_def)

lemma stretch_id [simp]: "length xs = n \<Longrightarrow> stretch n xs = xs"
  by (simp add: stretch_def)

lemma map2_map2: "map2 F (map2 G xs ys) (map2 H xs ys) = map2 (\<lambda>x y. F (G x y) (H x y)) xs ys"
  by (induction xs arbitrary: ys) (auto split: list.splits simp: zip_Cons1)

lemma map2_flip: "map2 F xs ys = map2 (\<lambda>y x. F x y) ys xs"
  by (induction xs arbitrary: ys) (auto split: list.splits simp: zip_Cons1)

lemma map_map2: "map h (map2 F xs ys) = map2 (\<lambda>x y. h (F x y)) xs ys"
  by (simp add: case_prod_beta)

lemma map2_maps: "map2 F (map h xs) (map k ys) = map2 (\<lambda>x y. F (h x) (k y)) xs ys"
  by (induction xs arbitrary: ys) (auto split: list.splits simp: zip_Cons1)

lemma ncols_map [simp]: "ncols (map (map h) rs) = ncols rs"
  by (cases rs) (simp_all add: ncols_def)

lemma zip_rows_maps:
  "zip_rows f (map (map h) rs) (map (map k) qs) = zip_rows (\<lambda>x y. f (h x) (k y)) rs qs"
  by (simp add: zip_rows_def Let_def stretch_map map2_maps)

lemma map_zip_rows:
  "map (map h) (zip_rows f rs qs) = zip_rows (\<lambda>x y. h (f x y)) rs qs"
  by (simp add: zip_rows_def Let_def map_map2 case_prod_beta)

lemma compat_sym: "compat m n = compat n m"
  by (auto simp: compat_def)

lemma bdim_sym: "compat m n \<Longrightarrow> bdim m n = bdim n m"
  by (auto simp: compat_def bdim_def)

lemma zip_rows_flip:
  "compat (length rs) (length qs) \<Longrightarrow> compat (ncols rs) (ncols qs) \<Longrightarrow>
   zip_rows f rs qs = zip_rows (\<lambda>y x. f x y) qs rs"
  unfolding zip_rows_def Let_def
  by (subst map2_flip) (simp add: bdim_sym map2_flip [of f])

lemma length_zip_rows:
  "compat (length rs) (length qs) \<Longrightarrow> length (zip_rows f rs qs) = bdim (length rs) (length qs)"
  by (auto simp: zip_rows_def Let_def stretch_def compat_def bdim_def)

lemma length_stretch_le: "xs \<noteq> [] \<Longrightarrow> length (stretch n xs) = n"
  by (simp add: stretch_def)

lemma hd_zip_rows:
  "compat (length rs) (length qs) \<Longrightarrow> compat (ncols rs) (ncols qs) \<Longrightarrow>
   ncols (zip_rows f rs qs) = (if bdim (length rs) (length qs) = 0 then 0 else bdim (ncols rs) (ncols qs))"
  apply (cases rs; cases qs)
     apply (auto simp: zip_rows_def Let_def ncols_def stretch_def compat_def bdim_def split: list.splits)
  done

lemma stretch_fixed: "length xs = n \<or> xs = [] \<Longrightarrow> stretch n xs = xs"
  by (auto simp: stretch_def)

lemma length_stretch_cases: "length (stretch n xs) = n \<or> stretch n xs = []"
  by (auto simp: stretch_def)

lemma map2_eq_Nil_iff: "map2 F xs ys = [] \<longleftrightarrow> xs = [] \<or> ys = []"
  by (cases xs; cases ys) simp_all

lemma row_fixed:
  "stretch c (map2 G (stretch c u) (stretch c v)) = map2 G (stretch c u) (stretch c v)"
proof (rule stretch_fixed)
  show "length (map2 G (stretch c u) (stretch c v)) = c \<or> map2 G (stretch c u) (stretch c v) = []"
    using length_stretch_cases [of c u] length_stretch_cases [of c v]
    by (auto simp: map2_eq_Nil_iff)
qed

lemma zip_rows_zip_rows:
  assumes "compat (length rs) (length qs)" and "compat (ncols rs) (ncols qs)"
  shows "zip_rows F (zip_rows G rs qs) (zip_rows H rs qs)
         = zip_rows (\<lambda>x y. F (G x y) (H x y)) rs qs"
proof (cases "bdim (length rs) (length qs) = 0")
  case True
  then have "zip_rows G rs qs = []" "zip_rows H rs qs = []"
    "zip_rows (\<lambda>x y. F (G x y) (H x y)) rs qs = []"
    using assms(1) length_zip_rows [of rs qs] by auto
  then show ?thesis by (simp add: zip_rows_def [of F] stretch_def)
next
  case False
  let ?r = "bdim (length rs) (length qs)" and ?c = "bdim (ncols rs) (ncols qs)"
  have len: "length (zip_rows G rs qs) = ?r" "length (zip_rows H rs qs) = ?r"
    using assms(1) by (simp_all add: length_zip_rows)
  have nc: "ncols (zip_rows G rs qs) = ?c" "ncols (zip_rows H rs qs) = ?c"
    using assms False by (simp_all add: hd_zip_rows)
  have "zip_rows F (zip_rows G rs qs) (zip_rows H rs qs)
        = map2 (\<lambda>u v. map2 F (stretch ?c u) (stretch ?c v)) (zip_rows G rs qs) (zip_rows H rs qs)"
    unfolding zip_rows_def [of F] Let_def len nc by (simp add: bdim_def len)
  also have "\<dots> = map2 (\<lambda>u v. map2 F (stretch ?c (map2 G (stretch ?c u) (stretch ?c v)))
                                   (stretch ?c (map2 H (stretch ?c u) (stretch ?c v))))
                     (stretch ?r rs) (stretch ?r qs)"
    unfolding zip_rows_def [of G] zip_rows_def [of H] Let_def by (rule map2_map2)
  also have "\<dots> = zip_rows (\<lambda>x y. F (G x y) (H x y)) rs qs"
    unfolding zip_rows_def [of "\<lambda>x y. F (G x y) (H x y)"] Let_def
    by (simp add: row_fixed map2_map2)
  finally show ?thesis .
qed

lemma rank_amap [simp]: "rank (amap h a) = rank a"
  by (cases a) simp_all

lemma rows_of_amap [simp]: "rows_of (amap h a) = map (map h) (rows_of a)"
  by (cases a) simp_all

lemma broadcastable_amap [simp]:
  "broadcastable (amap h a) (amap k b) = broadcastable a b"
  by (simp add: broadcastable_def)

lemma broadcastable_amap1 [simp]: "broadcastable (amap h a) b = broadcastable a b"
  by (simp add: broadcastable_def)

lemma broadcastable_amap2 [simp]: "broadcastable a (amap k b) = broadcastable a b"
  by (simp add: broadcastable_def)

lemma amap_amap [simp]: "amap f (amap g a) = amap (\<lambda>x. f (g x)) a"
  by (cases a) (simp_all add: comp_def)

lemma broadcast_amap: "broadcast f (amap h a) (amap k b) = broadcast (\<lambda>x y. f (h x) (k y)) a b"
  by (simp add: broadcast_def zip_rows_maps)

lemma broadcast_amap1: "broadcast f (amap h a) b = broadcast (\<lambda>x y. f (h x) y) a b"
  using broadcast_amap [of f h a "\<lambda>x. x" b] by (cases b) simp_all

lemma broadcast_amap2: "broadcast f a (amap k b) = broadcast (\<lambda>x y. f x (k y)) a b"
  using broadcast_amap [of f "\<lambda>x. x" a k b] by (cases a) simp_all

lemma rank_broadcast [simp]: "rank (broadcast f a b) = max (rank a) (rank b)"
  by (cases a; cases b) (simp_all add: broadcast_def pack_def)

lemma rows_of_broadcast [simp]:
  "rows_of (broadcast f a b) = zip_rows f (rows_of a) (rows_of b)"
  by (cases a; cases b) (simp_all add: broadcast_def pack_def zip_rows_def bdim_def ncols_def Let_def stretch_def)

lemma ndarray_eqI: "rank a = rank b \<Longrightarrow> rows_of a = rows_of b \<Longrightarrow> a = b"
  by (cases a; cases b) simp_all

lemma amap_broadcast: "amap h (broadcast f a b) = broadcast (\<lambda>x y. h (f x y)) a b"
  by (rule ndarray_eqI) (simp_all add: map_zip_rows)

lemma broadcastable_broadcast:
  "broadcastable a b \<Longrightarrow> broadcastable (broadcast g a b) (broadcast h a b)"
  by (simp add: broadcastable_def length_zip_rows hd_zip_rows compat_def)

lemma broadcast_broadcast:
  "broadcastable a b \<Longrightarrow>
   broadcast f (broadcast g a b) (broadcast h a b) = broadcast (\<lambda>x y. f (g x y) (h x y)) a b"
  by (rule ndarray_eqI) (simp_all add: broadcastable_def zip_rows_zip_rows)

lemma broadcastable_sym: "broadcastable a b = broadcastable b a"
  by (auto simp: broadcastable_def compat_def)

lemma broadcast_flip:
  "broadcastable a b \<Longrightarrow> broadcast f a b = broadcast (\<lambda>y x. f x y) b a"
  by (rule ndarray_eqI) (simp_all add: broadcastable_def zip_rows_flip max.commute)

lemma shape_eq_iff: "shape a = shape b \<longleftrightarrow>
  rank a = rank b \<and> length (rows_of a) = length (rows_of b) \<and> ncols (rows_of a) = ncols (rows_of b)"
  by (cases a; cases b) (auto simp: shape_def ncols_def)

lemma ncols_Nil [simp]: "ncols [] = 0"
  by (simp add: ncols_def)

lemma ncols_eq_0: "length rs = 0 \<Longrightarrow> ncols rs = 0"
  by (simp add: ncols_def)

lemma shape_broadcast:
  assumes "shape a = shape b"
  shows "shape (broadcast f a b) = shape a"
proof -
  from assms have eq: "rank a = rank b" "length (rows_of a) = length (rows_of b)"
    "ncols (rows_of a) = ncols (rows_of b)"
    by (simp_all add: shape_eq_iff)
  have c: "compat (length (rows_of a)) (length (rows_of b))"
    "compat (ncols (rows_of a)) (ncols (rows_of b))"
    using eq by (simp_all add: compat_def)
  have b: "bdim (length (rows_of b)) (length (rows_of b)) = length (rows_of b)"
    "bdim (ncols (rows_of b)) (ncols (rows_of b)) = ncols (rows_of b)"
    by (simp_all add: bdim_def)
  show ?thesis
    unfolding shape_eq_iff using eq b
    by (simp add: length_zip_rows [OF c(1)] hd_zip_rows [OF c] ncols_eq_0)
qed

lemma shape_broadcastable: "shape a = shape b \<Longrightarrow> broadcastable a b"
  by (simp add: shape_eq_iff broadcastable_def compat_def)

lemma shape_amap [simp]: "shape (amap h a) = shape a"
  by (simp add: shape_def)

subsection \<open>Running the functions of the module\<close>

lemmas py_defs = pret_def praise_def pbind_def lift_def new_array_def load_def getitem_def
  log_call_def value_of_def result_of_def ebind_def

lemma neg_diff_divide: "- ((p - q) / d) = (q - p) / (d::real)"
  by (simp add: minus_divide_left)


lemma truncnorm_run:
  "truncnorm tn a mu sigma high low s =
     (if a < length (heap s)
      then (Inr (length (heap s)),
            s\<lparr>heap := heap s @ [amap (\<lambda>x. tn x mu sigma high low) (heap s ! a)],
              calls := calls s @ [TruncNorm a mu sigma high low]\<rparr>)
      else (Inl BadReference, s\<lparr>calls := calls s @ [TruncNorm a mu sigma high low]\<rparr>))"
  by (simp add: truncnorm_def py_defs)

lemma beta_dist_run:
  "beta_dist bd a alpha beta scale s =
     (if a < length (heap s)
      then (Inr (length (heap s)),
            s\<lparr>heap := heap s @ [amap (\<lambda>x. bd x alpha beta scale) (heap s ! a)],
              calls := calls s @ [BetaDist a alpha beta scale]\<rparr>)
      else (Inl BadReference, s\<lparr>calls := calls s @ [BetaDist a alpha beta scale]\<rparr>))"
  by (simp add: beta_dist_def py_defs)

lemma dataset_inD: "dataset_in d s \<Longrightarrow> d k = Some a \<Longrightarrow> a < length (heap s)"
  by (auto simp: dataset_in_def ran_def)

lemma times_array_flip:
  "times_array (VArray m) vo = bop (\<lambda>x y. x * y) vo m"
  by (simp add: bop_def broadcastable_sym [of m vo] broadcast_flip [of m vo] mult.commute)

lemma orientation_run:
  assumes "dataset_in dataset s"
  shows "independent_spin_orientation_gaussian_isotropic tn dataset xi_spin sigma_1 sigma_2 s =
    (case dataset ''cos_tilt_1'' of
       None \<Rightarrow> (Inl (KeyError ''cos_tilt_1''), s)
     | Some a \<Rightarrow>
        (case dataset ''cos_tilt_2'' of
           None \<Rightarrow> (Inl (KeyError ''cos_tilt_2''),
                    s\<lparr>heap := heap s @ [amap (\<lambda>x. tn x 1 sigma_1 1 (-1)) (heap s ! a)],
                       calls := calls s @ [TruncNorm a 1 sigma_1 1 (-1)]\<rparr>)
         | Some b \<Rightarrow>
            if broadcastable (heap s ! a) (heap s ! b)
            then (Inr (length (heap s) + 2),
                  s\<lparr>heap := heap s @
                      [amap (\<lambda>x. tn x 1 sigma_1 1 (-1)) (heap s ! a),
                       amap (\<lambda>x. tn x 1 sigma_2 1 (-1)) (heap s ! b),
                       broadcast (\<lambda>x y. (1 - xi_spin) / 4 + xi_spin * tn x 1 sigma_1 1 (-1) * tn y 1 sigma_2 1 (-1))
                         (heap s ! a) (heap s ! b)],
                    calls := calls s @ [TruncNorm a 1 sigma_1 1 (-1), TruncNorm b 1 sigma_2 1 (-1)]\<rparr>)
            else (Inl ValueError,
                  s\<lparr>heap := heap s @
                      [amap (\<lambda>x. tn x 1 sigma_1 1 (-1)) (heap s ! a),
                       amap (\<lambda>x. tn x 1 sigma_2 1 (-1)) (heap s ! b)],
                    calls := calls s @ [TruncNorm a 1 sigma_1 1 (-1), TruncNorm b 1 sigma_2 1 (-1)]\<rparr>)))"
proof -
  note [simp] = dataset_inD [OF assms]
  show ?thesis
    by (simp add: independent_spin_orientation_gaussian_isotropic_def truncnorm_run py_defs nth_append bop_def
     broadcast_amap amap_broadcast less_Suc_eq split: option.splits)
qed

lemma magnitude_run:
  assumes "dataset_in dataset s"
  shows "independent_spin_magnitude_beta bd dataset alpha_chi_1 alpha_chi_2 beta_chi_1 beta_chi_2 amax_1 amax_2 s =
    (if alpha_chi_1 < 0 \<or> beta_chi_1 < 0 \<or> alpha_chi_2 < 0 \<or> beta_chi_2 < 0 then (Inr (PyInt 0), s)
     else case dataset ''a_1'' of
       None \<Rightarrow> (Inl (KeyError ''a_1''), s)
     | Some a \<Rightarrow>
        (case dataset ''a_2'' of
           None \<Rightarrow> (Inl (KeyError ''a_2''),
                    s\<lparr>heap := heap s @ [amap (\<lambda>x. bd x alpha_chi_1 beta_chi_1 amax_1) (heap s ! a)],
                       calls := calls s @ [BetaDist a alpha_chi_1 beta_chi_1 amax_1]\<rparr>)
         | Some b \<Rightarrow>
            if broadcastable (heap s ! a) (heap s ! b)
            then (Inr (NdArray (length (heap s) + 2)),
                  s\<lparr>heap := heap s @
                      [amap (\<lambda>x. bd x alpha_chi_1 beta_chi_1 amax_1) (heap s ! a),
                       amap (\<lambda>x. bd x alpha_chi_2 beta_chi_2 amax_2) (heap s ! b),
                       broadcast (\<lambda>x y. bd x alpha_chi_1 beta_chi_1 amax_1 * bd y alpha_chi_2 beta_chi_2 amax_2)
                         (heap s ! a) (heap s ! b)],
                    calls := calls s @ [BetaDist a alpha_chi_1 beta_chi_1 amax_1, BetaDist b alpha_chi_2 beta_chi_2 amax_2]\<rparr>)
            else (Inl ValueError,
                  s\<lparr>heap := heap s @
                      [amap (\<lambda>x. bd x alpha_chi_1 beta_chi_1 amax_1) (heap s ! a),
                       amap (\<lambda>x. bd x alpha_chi_2 beta_chi_2 amax_2) (heap s ! b)],
                    calls := calls s @ [BetaDist a alpha_chi_1 beta_chi_1 amax_1, BetaDist b alpha_chi_2 beta_chi_2 amax_2]\<rparr>)))"
proof -
  note [simp] = dataset_inD [OF assms]
  show ?thesis
    by (simp add: independent_spin_magnitude_beta_def beta_dist_run py_defs nth_append bop_def
     broadcast_amap amap_broadcast less_Suc_eq split: option.splits)
qed

lemma dataset_in_ext:
  "dataset_in d s \<Longrightarrow> dataset_in d (s\<lparr>heap := heap s @ ext, calls := c\<rparr>)"
  by (auto simp: dataset_in_def)

lemma times_zero_fun: "((*) (0::real)) = (\<lambda>x. 0)"
  by auto

subsection \<open>Framing\<close>

lemma keeps_length: "keeps H s \<Longrightarrow> length H \<le> length (heap s)"
proof -
  assume "keeps H s"
  then have "length (take (length H) (heap s)) = length H" by (simp add: keeps_def)
  then show ?thesis by simp
qed

lemma framed_pret: "Q x \<Longrightarrow> framed H (pret x) Q"
  by (simp add: framed_def pret_def)

lemma framed_praise: "framed H (praise e) Q"
  by (simp add: framed_def praise_def)

lemma framed_lift: "(\<And>x. r = Inr x \<Longrightarrow> Q x) \<Longrightarrow> framed H (lift r) Q"
  by (simp add: framed_def lift_def)

lemma framed_load: "framed H (load a) (\<lambda>_. True)"
  by (simp add: framed_def load_def)

lemma framed_getitem: "framed H (getitem d k) (\<lambda>_. True)"
  by (simp add: framed_def getitem_def pret_def praise_def split: option.splits)

lemma framed_log_call: "framed H (log_call c) (\<lambda>_. True)"
  by (simp add: framed_def log_call_def keeps_def)

lemma framed_new_array: "framed H (new_array v) (\<lambda>r. length H \<le> r)"
  unfolding framed_def
proof (intro allI impI conjI)
  fix s assume k: "keeps H s"
  then have "length H \<le> length (heap s)" by (rule keeps_length)
  then show "keeps H (snd (new_array v s))" using k by (simp add: new_array_def keeps_def)
  fix x assume "fst (new_array v s) = Inr x"
  then show "length H \<le> x" using \<open>length H \<le> length (heap s)\<close> by (simp add: new_array_def)
qed

lemma framed_inplace:
  assumes "length H \<le> a"
  shows "framed H (inplace f a v) (\<lambda>_. True)"
  unfolding framed_def
proof (intro allI impI conjI TrueI)
  fix s assume k: "keeps H s"
  have "take (length H) ((heap s)[a := w]) = take (length H) (heap s)" for w
    using assms by simp
  then show "keeps H (snd (inplace f a v s))"
    using k by (simp add: inplace_def keeps_def split: sum.splits)
qed

lemma framed_pbind:
  assumes m: "framed H m P" and f: "\<And>x. P x \<Longrightarrow> framed H (f x) Q"
  shows "framed H (pbind m f) Q"
  unfolding framed_def
proof (intro allI impI)
  fix s assume k: "keeps H s"
  obtain r s' where ms: "m s = (r, s')" by (cases "m s")
  from m k ms have k': "keeps H s'" and p: "\<And>x. r = Inr x \<Longrightarrow> P x"
    by (auto simp: framed_def)
  show "keeps H (snd (pbind m f s)) \<and> (\<forall>x. fst (pbind m f s) = Inr x \<longrightarrow> Q x)"
  proof (cases r)
    case (Inl e)
    then show ?thesis using ms k' by (simp add: pbind_def)
  next
    case (Inr x)
    then have "framed H (f x) Q" using p f by simp
    then show ?thesis using ms k' Inr by (simp add: pbind_def framed_def)
  qed
qed

lemma framed_any: "framed H m P \<Longrightarrow> framed H m (\<lambda>_. True)"
  by (simp add: framed_def)

lemma framed_if: "(c \<Longrightarrow> framed H m Q) \<Longrightarrow> (\<not> c \<Longrightarrow> framed H n Q) \<Longrightarrow> framed H (if c then m else n) Q"
  by simp

lemma framed_truncnorm: "framed H (truncnorm tn a mu sigma high low) (\<lambda>r. length H \<le> r)"
  unfolding truncnorm_def
  by (intro framed_pbind [where P = "\<lambda>_. True"] framed_log_call framed_load framed_new_array)

lemma framed_beta_dist: "framed H (beta_dist bd a alpha beta scale) (\<lambda>r. length H \<le> r)"
  unfolding beta_dist_def
  by (intro framed_pbind [where P = "\<lambda>_. True"] framed_log_call framed_load framed_new_array)

lemma framed_gaussian_chi_eff:
  "framed H (gaussian_chi_eff tn dataset mu sigma) (\<lambda>r. length H \<le> r)"
  unfolding gaussian_chi_eff_def
  by (intro framed_pbind [where P = "\<lambda>_. True"] framed_getitem framed_truncnorm)

lemma framed_gaussian_chi_p:
  "framed H (gaussian_chi_p tn dataset mu sigma) (\<lambda>r. length H \<le> r)"
  unfolding gaussian_chi_p_def
  by (intro framed_pbind [where P = "\<lambda>_. True"] framed_getitem framed_truncnorm)

lemma framed_orientation:
  "framed H (independent_spin_orientation_gaussian_isotropic tn dataset xi_spin sigma_1 sigma_2)
     (\<lambda>r. length H \<le> r)"
  unfolding independent_spin_orientation_gaussian_isotropic_def
  by (intro framed_pbind [where P = "\<lambda>_. True"] framed_getitem framed_any [OF framed_truncnorm]
        framed_load framed_lift framed_new_array TrueI)

lemma framed_magnitude:
  "framed H (independent_spin_magnitude_beta bd dataset alpha_chi_1 alpha_chi_2 beta_chi_1
     beta_chi_2 amax_1 amax_2) (\<lambda>_. True)"
  unfolding independent_spin_magnitude_beta_def
  by (intro framed_if framed_pret framed_pbind [where P = "\<lambda>_. True"] framed_getitem
        framed_any [OF framed_beta_dist] framed_any [OF framed_new_array]
        framed_load framed_lift TrueI)

lemma framed_array_times: "framed H (array_times a other) (\<lambda>r. length H \<le> r)"
  unfolding array_times_def
  by (cases other)
     (auto intro!: framed_pbind [where P = "\<lambda>_. True"] framed_load framed_lift framed_new_array)

lemma framed_iid_spin:
  "framed H (iid_spin bd tn dataset xi_spin sigma_spin amax alpha_chi beta_chi) (\<lambda>r. length H \<le> r)"
  unfolding iid_spin_def iid_spin_orientation_gaussian_isotropic_def iid_spin_magnitude_beta_def
  by (intro framed_pbind [where P = "\<lambda>_. True"] framed_any [OF framed_orientation]
        framed_magnitude framed_array_times)

lemma framed_2d_probability:
  "framed H (GaussianChiEffChiP_2d_probability self dataset mu_chi_eff sigma_chi_eff mu_chi_p
     sigma_chi_p spin_covariance) (\<lambda>r. length H \<le> r)"
  unfolding GaussianChiEffChiP_2d_probability_def Let_def
  by (intro framed_pbind [where P = "\<lambda>_. True"] framed_getitem
        framed_load framed_lift framed_new_array TrueI)

lemma framed_normalization:
  "framed H (GaussianChiEffChiP_normalization self mu_chi_eff sigma_chi_eff mu_chi_p
     sigma_chi_p spin_covariance) (\<lambda>_. True)"
  unfolding GaussianChiEffChiP_normalization_def
  by (intro framed_pbind [where P = "\<lambda>_. True"] framed_any [OF framed_2d_probability]
        framed_load framed_lift TrueI)

lemma framed_call:
  "framed H (GaussianChiEffChiP_call tn self dataset mu_chi_eff sigma_chi_eff mu_chi_p
     sigma_chi_p spin_covariance) (\<lambda>r. length H \<le> r)"
  unfolding GaussianChiEffChiP_call_def
  apply (rule framed_if)
   apply (rule framed_pbind [OF framed_gaussian_chi_eff])
   apply (intro framed_pbind [where P = "\<lambda>_. True"] framed_any [OF framed_gaussian_chi_p]
        framed_load framed_inplace framed_pret; assumption)
  apply (rule framed_pbind [OF framed_2d_probability])
  apply (intro framed_pbind [where P = "\<lambda>_. True"] framed_normalization
        framed_inplace framed_pret; assumption)
  done

lemma framedD: "framed (heap s) m Q \<Longrightarrow> take (length (heap s)) (heap (snd (m s))) = heap s"
  by (simp add: framed_def keeps_def)

subsection \<open>The grid of an instance\<close>

lemma linspace_chi_eff: "linspace (- 1) 1 100 = chi_eff_points"
  by (auto simp: linspace_def chi_eff_points_def list_eq_iff_nth_eq nth_list_update field_simps)

lemma linspace_chi_p: "linspace 0 1 50 = chi_p_points"
  by (auto simp: linspace_def chi_p_points_def list_eq_iff_nth_eq nth_list_update field_simps)

lemma length_chi_eff_points [simp]: "length chi_eff_points = 100"
  by (simp add: chi_eff_points_def)

lemma length_chi_p_points [simp]: "length chi_p_points = 50"
  by (simp add: chi_p_points_def)

lemma init_run:
  "GaussianChiEffChiP_init s =
     (Inr \<lparr>chi_eff = length (heap s), chi_p = length (heap s) + 1,
           chi_eff_grid = length (heap s) + 2, chi_p_grid = length (heap s) + 3,
           normalization_data =
             [''chi_eff'' \<mapsto> length (heap s) + 2, ''chi_p'' \<mapsto> length (heap s) + 3]\<rparr>,
      s\<lparr>heap := heap s @
          [A1 chi_eff_points, A1 chi_p_points,
           A2 (replicate 50 chi_eff_points), A2 (map (replicate 100) chi_p_points)]\<rparr>)"
  by (simp add: GaussianChiEffChiP_init_def py_defs nth_append meshgrid_def flat_def
      linspace_chi_eff linspace_chi_p numeral_3_eq_3)

lemma grid_intact_init:
  "GaussianChiEffChiP_init s = (Inr self, s') \<Longrightarrow> grid_intact self s'"
  by (auto simp: init_run grid_intact_def load_def nth_append)

lemma load_keeps:
  assumes "keeps (heap s) s'" and "fst (load a s) = Inr v"
  shows "fst (load a s') = Inr v"
proof -
  from assms(2) have a: "a < length (heap s)" and v: "heap s ! a = v"
    by (auto simp: load_def split: if_splits)
  from assms(1) have t: "take (length (heap s)) (heap s') = heap s" by (simp add: keeps_def)
  have "length (heap s) \<le> length (heap s')" using assms(1) by (rule keeps_length)
  moreover have "heap s' ! a = take (length (heap s)) (heap s') ! a" using a by simp
  ultimately show ?thesis using a v t by (simp add: load_def)
qed

lemma grid_intact_keeps:
  "grid_intact self s \<Longrightarrow> keeps (heap s) s' \<Longrightarrow> grid_intact self s'"
  unfolding grid_intact_def by (blast intro: load_keeps)

lemma keeps_refl: "keeps (heap s) s"
  by (simp add: keeps_def)

lemma keeps_after: "framed (heap s) m Q \<Longrightarrow> m s = (r, s') \<Longrightarrow> keeps (heap s) s'"
  using keeps_refl [of s] by (auto simp: framed_def)

lemma reachable_grid_intact: "reachable self s \<Longrightarrow> grid_intact self s"
proof (induction rule: reachable.induct)
  case (construct s self s')
  then show ?case by (rule grid_intact_init)
next
  case (call self s tn dataset mu_chi_eff sigma_chi_eff mu_chi_p sigma_chi_p spin_covariance r s')
  from framed_call call.hyps(2) have "keeps (heap s) s'" by (rule keeps_after)
  with call.IH show ?case by (rule grid_intact_keeps)
next
  case (create self s v r s')
  from framed_new_array create.hyps(2) have "keeps (heap s) s'" by (rule keeps_after)
  with create.IH show ?case by (rule grid_intact_keeps)
qed

subsection \<open>The normalisation on the grid\<close>

lemma two_d_probability_run:
  assumes "dataset ''chi_eff'' = Some a" "dataset ''chi_p'' = Some b"
    and "a < length (heap s)" "b < length (heap s)"
  shows "GaussianChiEffChiP_2d_probability self dataset mu_chi_eff sigma_chi_eff mu_chi_p
           sigma_chi_p spin_covariance s =
     (if broadcastable (heap s ! a) (heap s ! b)
      then (Inr (length (heap s)),
            s\<lparr>heap := heap s @
              [broadcast (\<lambda>x y. exp (- ((((mu_chi_eff - x) * sigma_chi_eff)\<^sup>2 +
                         ((mu_chi_p - y) * sigma_chi_p)\<^sup>2 -
                         2 * ((mu_chi_eff - x) * sigma_chi_eff) *
                         ((mu_chi_p - y) * sigma_chi_p) * spin_covariance) / 2 /
                        (sigma_chi_eff\<^sup>2 * sigma_chi_p\<^sup>2 * (1 - spin_covariance)))))
                 (heap s ! a) (heap s ! b)]\<rparr>)
      else (Inl ValueError, s))"
  using assms
  by (simp add: GaussianChiEffChiP_2d_probability_def py_defs nth_append bop_def Let_def
     broadcast_amap amap_broadcast broadcast_amap1 broadcast_amap2 broadcastable_broadcast broadcast_broadcast)

lemma length_diff [simp]: "length (diff xs) = length xs - 1"
  by (simp add: diff_def)

lemma ncols_map_tl: "rs \<noteq> [] \<Longrightarrow> ncols (map tl rs) = ncols rs - 1"
  by (cases rs) (simp_all add: ncols_def)

lemma ncols_map_butlast: "rs \<noteq> [] \<Longrightarrow> ncols (map butlast rs) = ncols rs - 1"
  by (cases rs) (simp_all add: ncols_def)

lemma trapz_mismatch:
  assumes "rs \<noteq> []" and "\<not> compat (length xs - 1) (ncols rs - 1)"
  shows "trapz (A2 rs) (A1 xs) = Inl ValueError"
proof -
  have c: "compat (length (map tl rs)) (length (map butlast rs))"
    "compat (ncols (map tl rs)) (ncols (map butlast rs))"
    using assms(1) by (simp_all add: compat_def ncols_map_tl ncols_map_butlast)
  have b: "broadcastable (A2 (map tl rs)) (A2 (map butlast rs))"
    using c by (simp add: broadcastable_def)
  let ?S = "broadcast (+) (A2 (map tl rs)) (A2 (map butlast rs))"
  have "ncols (rows_of ?S) = ncols rs - 1"
    using assms(1) c by (simp add: hd_zip_rows bdim_def ncols_map_tl ncols_map_butlast)
  then have "\<not> broadcastable (A1 (diff xs)) ?S"
    using assms(2) by (simp add: broadcastable_def ncols_def)
  then show ?thesis
    using b by (simp add: trapz_def ebind_def bop_def)
qed

lemma ncols_replicate [simp]: "0 < n \<Longrightarrow> ncols (replicate n xs) = length xs"
  by (cases n) (simp_all add: ncols_def)

lemma grid_shapes:
  "length (map (replicate 100) chi_p_points) = 50"
  "ncols (map (replicate 100) chi_p_points) = 100"
  "ncols (replicate 50 chi_eff_points) = 100"
proof -
  show "length (map (replicate 100) chi_p_points) = 50" by simp
  show "ncols (map (replicate 100) chi_p_points) = 100"
    by (simp add: ncols_def chi_p_points_def upt_conv_Cons)
  show "ncols (replicate 50 chi_eff_points) = 100" by simp
qed

lemma normalization_raises:
  assumes "grid_intact self s"
  shows "fst (GaussianChiEffChiP_normalization self mu_chi_eff sigma_chi_eff mu_chi_p sigma_chi_p
           spin_covariance s) = Inl ValueError"
proof -
  from assms obtain
    e: "chi_eff_grid self < length (heap s)" "heap s ! chi_eff_grid self = A2 (replicate 50 chi_eff_points)"
    and p: "chi_p_grid self < length (heap s)" "heap s ! chi_p_grid self = A2 (map (replicate 100) chi_p_points)"
    and x: "chi_p self < length (heap s)" "heap s ! chi_p self = A1 chi_p_points"
    and n: "normalization_data self ''chi_eff'' = Some (chi_eff_grid self)"
       "normalization_data self ''chi_p'' = Some (chi_p_grid self)"
    by (auto simp: grid_intact_def load_def split: if_splits)
  have bc: "broadcastable (A2 (replicate 50 chi_eff_points)) (A2 (map (replicate 100) chi_p_points))"
    by (simp add: broadcastable_def compat_def grid_shapes)
  let ?P = "\<lambda>f. zip_rows f (replicate 50 chi_eff_points) (map (replicate 100) chi_p_points)"
  have len: "length (?P f) = 50" for f
    by (simp add: length_zip_rows compat_def bdim_def)
  have nc: "ncols (?P f) = 100" for f
    by (simp add: hd_zip_rows compat_def bdim_def grid_shapes)
  have ne: "?P f \<noteq> []" for f using len [of f] by auto
  have br: "broadcast f (A2 (replicate 50 chi_eff_points)) (A2 (map (replicate 100) chi_p_points))
      = A2 (?P f)" for f
    by (simp add: broadcast_def pack_def)
  have tz: "trapz (A2 (?P f)) (A1 chi_p_points) = Inl ValueError" for f
    by (rule trapz_mismatch [OF ne]) (simp add: nc compat_def)
  show ?thesis
    unfolding GaussianChiEffChiP_normalization_def
    using x
    by (simp add: two_d_probability_run [OF n e(1) p(1)] e p bc br tz
        pbind_def load_def lift_def nth_append)
qed

lemma call_raises:
  assumes "grid_intact self s" and "spin_covariance \<noteq> 0"
  shows "\<exists>e. fst (GaussianChiEffChiP_call tn self dataset mu_chi_eff sigma_chi_eff mu_chi_p
           sigma_chi_p spin_covariance s) = Inl e"
proof -
  obtain r s1 where run: "GaussianChiEffChiP_2d_probability self dataset mu_chi_eff sigma_chi_eff
      mu_chi_p sigma_chi_p spin_covariance s = (r, s1)"
    by (cases "GaussianChiEffChiP_2d_probability self dataset mu_chi_eff sigma_chi_eff
      mu_chi_p sigma_chi_p spin_covariance s")
  from framed_2d_probability run have "keeps (heap s) s1" by (rule keeps_after)
  with assms(1) have "grid_intact self s1" by (rule grid_intact_keeps)
  then have "fst (GaussianChiEffChiP_normalization self mu_chi_eff sigma_chi_eff mu_chi_p sigma_chi_p
           spin_covariance s1) = Inl ValueError"
    by (rule normalization_raises)
  then show ?thesis
    using assms(2) run
    by (cases r) (auto simp: GaussianChiEffChiP_call_def pbind_def split: prod.splits sum.splits)
qed


lemma call_raises_ValueError:
  assumes "grid_intact self s" and "spin_covariance \<noteq> 0"
    and "dataset ''chi_eff'' = Some a" and "dataset ''chi_p'' = Some b"
    and "a < length (heap s)" and "b < length (heap s)"
    and "broadcastable (heap s ! a) (heap s ! b)"
  shows "fst (GaussianChiEffChiP_call tn self dataset mu_chi_eff sigma_chi_eff mu_chi_p
           sigma_chi_p spin_covariance s) = Inl ValueError"
proof -
  obtain r s1 where run: "GaussianChiEffChiP_2d_probability self dataset mu_chi_eff sigma_chi_eff
      mu_chi_p sigma_chi_p spin_covariance s = (r, s1)"
    by (cases "GaussianChiEffChiP_2d_probability self dataset mu_chi_eff sigma_chi_eff
      mu_chi_p sigma_chi_p spin_covariance s")
  then have r: "r = Inr (length (heap s))"
    using assms(3-7) by (simp add: two_d_probability_run)
  from framed_2d_probability run have "keeps (heap s) s1" by (rule keeps_after)
  with assms(1) have "grid_intact self s1" by (rule grid_intact_keeps)
  then have "fst (GaussianChiEffChiP_normalization self mu_chi_eff sigma_chi_eff mu_chi_p sigma_chi_p
           spin_covariance s1) = Inl ValueError"
    by (rule normalization_raises)
  then show ?thesis
    using assms(2) run r
    by (auto simp: GaussianChiEffChiP_call_def pbind_def split: prod.splits sum.splits)
qed

subsection \<open>The example\<close>

lemma example_init:
  "GaussianChiEffChiP_init empty_store =
     (Inr example_self,
      \<lparr>heap = [A1 chi_eff_points, A1 chi_p_points,
               A2 (replicate 50 chi_eff_points), A2 (map (replicate 100) chi_p_points)],
       calls = []\<rparr>)"
  by (simp add: GaussianChiEffChiP_init_def py_defs empty_store_def example_self_def meshgrid_def
      flat_def linspace_chi_eff linspace_chi_p numeral_2_eq_2 numeral_3_eq_3)

lemma heap_example_store:
  "heap example_store =
     [A1 chi_eff_points, A1 chi_p_points,
      A2 (replicate 50 chi_eff_points), A2 (map (replicate 100) chi_p_points),
      A1 [0, 1 / 2], A1 [1, 1 / 2]]"
  by (simp add: example_store_def example_init new_array_def)

lemma calls_example_store: "calls example_store = []"
  by (simp add: example_store_def example_init new_array_def)

lemma reachable_example: "reachable example_self example_store"
proof -
  have "reachable example_self (snd (GaussianChiEffChiP_init empty_store))"
    by (rule reachable.construct [of empty_store]) (simp add: example_init)
  then show ?thesis
    unfolding example_store_def by (intro reachable.create [OF _ surjective_pairing])
qed

lemma dataset_inI: "(\<And>k a. d k = Some a \<Longrightarrow> a < length (heap s)) \<Longrightarrow> dataset_in d s"
  by (auto simp: dataset_in_def ran_def)

lemma dataset_in_example: "dataset_in example_dataset example_store"
proof (rule dataset_inI)
  fix k a assume "example_dataset k = Some a"
  then have "a = 4 \<or> a = 5"
    by (simp add: example_dataset_def split: if_splits)
  then show "a < length (heap example_store)"
    by (auto simp: heap_example_store)
qed

lemma broadcastable_A1: "broadcastable (A1 xs) (A1 ys) = compat (length xs) (length ys)"
  by (simp add: broadcastable_def ncols_def compat_def)

lemma broadcast_A1:
  "length xs = length ys \<Longrightarrow> broadcast f (A1 xs) (A1 ys) = A1 (map2 f xs ys)"
  by (simp add: broadcast_def pack_def zip_rows_def bdim_def ncols_def)

lemmas example_simps = heap_example_store calls_example_store example_dataset_def
  broadcastable_A1 broadcast_A1 compat_def bop_def ebind_def

section \<open>The claims\<close>

text \<open>
  C1. With a non-zero \<open>spin_covariance\<close>, \<open>__call__\<close> is meant to return
  \<open>_2d_probability\<close> on the dataset divided by the nested trapezoidal integral of
  \<open>_2d_probability\<close> over the grid. It does not return: the grid has 50 rows (the
  \<open>chi_p\<close> axis) of 100 columns (the \<open>chi_eff\<close> axis), the inner \<open>trapz\<close> runs along the
  last axis, that of \<open>chi_eff\<close>, and is given the 50 points of \<open>chi_p\<close> as abscissa, so
  the 49 differences meet 99 column sums and the call raises \<open>ValueError\<close>. Here on the
  instance and the dataset of the example, with \<open>spin_covariance = 1/2\<close>.
\<close>

theorem GaussianChiEffChiP_call_raises_on_example:
  "fst (GaussianChiEffChiP_call flat_truncnorm example_self example_dataset 0 1 (1 / 2) 1 (1 / 2)
     example_store) = Inl ValueError"
proof -
  have "grid_intact example_self example_store"
    using reachable_example by (rule reachable_grid_intact)
  then show ?thesis
    by (rule call_raises_ValueError [where a = 4 and b = 5]) (simp_all add: example_simps)
qed

text \<open>
  C2. On a dataset that holds arrays under \<open>chi_eff\<close> and \<open>chi_p\<close>, \<open>_2d_probability\<close>
  returns, elementwise with broadcasting,
  \<open>exp(-(r_eff^2 + r_p^2 - 2 r_eff r_p spin_covariance) / (2 det))\<close> with
  \<open>r_eff = (mu_chi_eff - chi_eff) sigma_chi_eff\<close>, \<open>r_p = (mu_chi_p - chi_p) sigma_chi_p\<close>
  and \<open>det = sigma_chi_eff^2 sigma_chi_p^2 (1 - spin_covariance)\<close>; it raises where the
  two shapes cannot be broadcast together.
\<close>

theorem two_d_probability_formula:
  assumes "dataset ''chi_eff'' = Some a" and "dataset ''chi_p'' = Some b"
    and "a < length (heap s)" and "b < length (heap s)"
  shows "value_of (GaussianChiEffChiP_2d_probability self dataset mu_chi_eff sigma_chi_eff
           mu_chi_p sigma_chi_p spin_covariance) s
         = bop (\<lambda>x y.
                 let r_eff = (mu_chi_eff - x) * sigma_chi_eff;
                     r_p = (mu_chi_p - y) * sigma_chi_p;
                     det = sigma_chi_eff ^ 2 * sigma_chi_p ^ 2 * (1 - spin_covariance)
                 in exp (- (r_eff ^ 2 + r_p ^ 2 - 2 * r_eff * r_p * spin_covariance) / (2 * det)))
             (heap s ! a) (heap s ! b)"
  using assms
  by (simp add: two_d_probability_run value_of_def load_def bop_def Let_def nth_append
      neg_diff_divide)

theorem two_d_probability_formula_witness:
  "example_dataset ''chi_eff'' = Some 4 \<and> example_dataset ''chi_p'' = Some 5 \<and>
   4 < length (heap example_store) \<and> 5 < length (heap example_store) \<and>
   value_of (GaussianChiEffChiP_2d_probability example_self example_dataset 0 1 (1 / 2) 1 (1 / 2))
     example_store = Inr (A1 [exp (- (1 / 4)), exp (- (1 / 4))])"
  using two_d_probability_formula [of example_dataset 4 5 example_store example_self 0 1 "1 / 2" 1 "1 / 2"]
  by (simp add: example_simps power2_eq_square)




text \<open>
  C4. On a dataset that holds arrays under \<open>cos_tilt_1\<close> and \<open>cos_tilt_2\<close>,
  \<open>independent_spin_orientation_gaussian_isotropic\<close> returns, elementwise with
  broadcasting, \<open>(1 - xi_spin)/4 + xi_spin T(cos_tilt_1) T(cos_tilt_2)\<close>, where \<open>T\<close> is the
  truncated Gaussian with mean 1, the width \<open>sigma_1\<close> or \<open>sigma_2\<close>, upper bound 1 and
  lower bound \<open>-1\<close>.
\<close>

theorem orientation_mixture:
  assumes "dataset ''cos_tilt_1'' = Some a" and "dataset ''cos_tilt_2'' = Some b"
    and "a < length (heap s)" and "b < length (heap s)"
  shows "value_of (independent_spin_orientation_gaussian_isotropic tn dataset xi_spin
           sigma_1 sigma_2) s
         = bop (\<lambda>x y. (1 - xi_spin) / 4 + xi_spin * tn x 1 sigma_1 1 (- 1) * tn y 1 sigma_2 1 (- 1))
             (heap s ! a) (heap s ! b)"
  using assms
  by (simp add: independent_spin_orientation_gaussian_isotropic_def truncnorm_run py_defs
      nth_append bop_def broadcast_amap amap_broadcast)

theorem orientation_mixture_witness:
  "example_dataset ''cos_tilt_1'' = Some 4 \<and> example_dataset ''cos_tilt_2'' = Some 5 \<and>
   4 < length (heap example_store) \<and> 5 < length (heap example_store) \<and>
   value_of (independent_spin_orientation_gaussian_isotropic flat_truncnorm example_dataset
     (1 / 2) 1 1) example_store = Inr (A1 [1 / 4, 1 / 4])"
  using orientation_mixture [of example_dataset 4 5 example_store flat_truncnorm "1 / 2" 1 1]
  by (simp add: example_simps flat_truncnorm_def)

text \<open>
  C5. When the four shape parameters are non-negative, on a dataset that holds arrays
  under \<open>a_1\<close> and \<open>a_2\<close>, \<open>independent_spin_magnitude_beta\<close> returns the elementwise
  product, with broadcasting, of the Beta density of \<open>a_1\<close> with
  \<open>alpha_chi_1, beta_chi_1, amax_1\<close> and that of \<open>a_2\<close> with \<open>alpha_chi_2, beta_chi_2, amax_2\<close>.
\<close>

theorem magnitude_beta_product:
  assumes "0 \<le> alpha_chi_1" and "0 \<le> alpha_chi_2" and "0 \<le> beta_chi_1" and "0 \<le> beta_chi_2"
    and "dataset ''a_1'' = Some a" and "dataset ''a_2'' = Some b"
    and "a < length (heap s)" and "b < length (heap s)"
  shows "result_of (independent_spin_magnitude_beta bd dataset alpha_chi_1 alpha_chi_2
            beta_chi_1 beta_chi_2 amax_1 amax_2) s
         = ebind (bop (*) (amap (\<lambda>x. bd x alpha_chi_1 beta_chi_1 amax_1) (heap s ! a))
                          (amap (\<lambda>x. bd x alpha_chi_2 beta_chi_2 amax_2) (heap s ! b)))
             (\<lambda>w. Inr (VArray w))"
  using assms
  by (simp add: independent_spin_magnitude_beta_def beta_dist_run py_defs nth_append bop_def)

theorem magnitude_beta_product_witness:
  "(0::real) \<le> 2 \<and> (0::real) \<le> 0 \<and> (0::real) \<le> 1 \<and> (0::real) \<le> 3 \<and>
   example_dataset ''a_1'' = Some 4 \<and> example_dataset ''a_2'' = Some 5 \<and>
   4 < length (heap example_store) \<and> 5 < length (heap example_store) \<and>
   result_of (independent_spin_magnitude_beta flat_beta example_dataset 2 0 1 3 2 4) example_store
     = Inr (VArray (A1 [1 / 8, 1 / 8]))"
  using magnitude_beta_product [of 2 0 1 3 example_dataset 4 5 example_store flat_beta 2 4]
  by (simp add: example_simps flat_beta_def)

text \<open>
  C6. If one of the four shape parameters is negative, \<open>independent_spin_magnitude_beta\<close>
  returns the integer \<open>0\<close>, whatever the dataset, and leaves the store as it was: no call
  of \<open>beta_dist\<close> is recorded and no array is created.
\<close>

theorem magnitude_negative_shape_zero:
  assumes "alpha_chi_1 < 0 \<or> alpha_chi_2 < 0 \<or> beta_chi_1 < 0 \<or> beta_chi_2 < 0"
  shows "independent_spin_magnitude_beta bd dataset alpha_chi_1 alpha_chi_2 beta_chi_1
           beta_chi_2 amax_1 amax_2 s = (Inr (PyInt 0), s)"
  using assms by (auto simp: independent_spin_magnitude_beta_def pret_def)

theorem magnitude_negative_shape_zero_witness:
  "((1::real) < 0 \<or> (1::real) < 0 \<or> (- 1::real) < 0 \<or> (1::real) < 0) \<and>
   independent_spin_magnitude_beta flat_beta example_dataset 1 1 (- 1) 1 1 1 example_store
     = (Inr (PyInt 0), example_store)"
  using magnitude_negative_shape_zero [of 1 1 "- 1" 1 flat_beta example_dataset 1 1 example_store]
  by simp

text \<open>
  C7. On a dataset whose arrays exist, \<open>iid_spin\<close> returns the product of what
  \<open>iid_spin_magnitude_beta\<close> and \<open>iid_spin_orientation_gaussian_isotropic\<close> return on
  that dataset with the same hyper-parameters; it raises what the orientation model
  raises, and otherwise what the magnitude model raises.
\<close>

theorem iid_spin_composition:
  assumes "dataset_in dataset s"
  shows "value_of (iid_spin bd tn dataset xi_spin sigma_spin amax alpha_chi beta_chi) s
     = ebind (value_of (iid_spin_orientation_gaussian_isotropic tn dataset xi_spin sigma_spin) s)
         (\<lambda>orientation.
       ebind (result_of (iid_spin_magnitude_beta bd dataset amax alpha_chi beta_chi) s)
         (\<lambda>magnitude.
       times_array magnitude orientation))"
proof -
  note d [simp] = dataset_inD [OF assms]
  note m = magnitude_run [OF assms] magnitude_run [OF dataset_in_ext [OF assms]]
  show ?thesis
    unfolding iid_spin_def iid_spin_magnitude_beta_def iid_spin_orientation_gaussian_isotropic_def
    by (simp add: orientation_run [OF assms] m array_times_def times_array_flip
        pbind_def value_of_def result_of_def ebind_def load_def new_array_def lift_def bop_def
        nth_append mult.commute times_zero_fun
        del: times_array.simps(2)
        split: option.splits)
qed

theorem iid_spin_composition_witness:
  "dataset_in example_dataset example_store \<and>
   value_of (iid_spin_orientation_gaussian_isotropic flat_truncnorm example_dataset (1 / 2) 1)
     example_store = Inr (A1 [1 / 4, 1 / 4]) \<and>
   result_of (iid_spin_magnitude_beta flat_beta example_dataset 2 1 1) example_store
     = Inr (VArray (A1 [1 / 4, 1 / 4])) \<and>
   value_of (iid_spin flat_beta flat_truncnorm example_dataset (1 / 2) 1 2 1 1) example_store
     = Inr (A1 [1 / 16, 1 / 16])"
proof -
  note d = dataset_in_example
  have o: "value_of (iid_spin_orientation_gaussian_isotropic flat_truncnorm example_dataset (1 / 2) 1)
     example_store = Inr (A1 [1 / 4, 1 / 4])"
    unfolding iid_spin_orientation_gaussian_isotropic_def value_of_def orientation_run [OF d]
    by (simp add: load_def example_simps flat_truncnorm_def)
  have m: "result_of (iid_spin_magnitude_beta flat_beta example_dataset 2 1 1) example_store
     = Inr (VArray (A1 [1 / 4, 1 / 4]))"
    unfolding iid_spin_magnitude_beta_def result_of_def magnitude_run [OF d]
    by (simp add: load_def example_simps flat_beta_def)
  show ?thesis
    using iid_spin_composition [OF d, of flat_beta flat_truncnorm "1 / 2" 1 2 1 1]
    by (simp add: d o m ebind_def bop_def broadcastable_A1 broadcast_A1 compat_def)
qed

text \<open>
  C8. In every state that an instance reaches, by its construction, by calls of
  \<open>__call__\<close> with any dataset and hyper-parameters, returning or raising, and by its
  caller creating arrays, the instance holds the grid of its construction: the 100 evenly
  spaced points of \<open>chi_eff\<close> from \<open>-1\<close> to \<open>1\<close>, the 50 evenly spaced points of \<open>chi_p\<close>
  from \<open>0\<close> to \<open>1\<close>, their two coordinate matrices, and the dict that refers to these.
\<close>

theorem grid_never_changes:
  assumes "reachable self s"
  shows "grid_intact self s"
  using assms by (rule reachable_grid_intact)

theorem grid_never_changes_witness:
  "reachable example_self
     (snd (GaussianChiEffChiP_call flat_truncnorm example_self example_dataset 0 1 (1 / 2) 1 (1 / 2)
        example_store)) \<and>
   grid_intact example_self
     (snd (GaussianChiEffChiP_call flat_truncnorm example_self example_dataset 0 1 (1 / 2) 1 (1 / 2)
        example_store))"
proof -
  have "reachable example_self
     (snd (GaussianChiEffChiP_call flat_truncnorm example_self example_dataset 0 1 (1 / 2) 1 (1 / 2)
        example_store))"
    by (rule reachable.call [OF reachable_example surjective_pairing])
  then show ?thesis using grid_never_changes by blast
qed

text \<open>
  C9. Every public operation leaves every array that existed before it unchanged, the
  arrays of the dataset among them, whether it returns or raises: the store afterwards
  begins with the store before. The dataset itself is a value here: no function of the
  module assigns to it.
\<close>

theorem dataset_arrays_unchanged:
  "take (length (heap s))
     (heap (snd (iid_spin bd tn dataset xi_spin sigma_spin amax alpha_chi beta_chi s))) = heap s \<and>
   take (length (heap s))
     (heap (snd (iid_spin_magnitude_beta bd dataset amax alpha_chi beta_chi s))) = heap s \<and>
   take (length (heap s))
     (heap (snd (independent_spin_magnitude_beta bd dataset alpha_chi_1 alpha_chi_2 beta_chi_1
        beta_chi_2 amax_1 amax_2 s))) = heap s \<and>
   take (length (heap s))
     (heap (snd (iid_spin_orientation_gaussian_isotropic tn dataset xi_spin sigma_spin s))) = heap s \<and>
   take (length (heap s))
     (heap (snd (independent_spin_orientation_gaussian_isotropic tn dataset xi_spin sigma_1
        sigma_2 s))) = heap s \<and>
   take (length (heap s))
     (heap (snd (gaussian_chi_eff tn dataset mu_chi_eff sigma_chi_eff s))) = heap s \<and>
   take (length (heap s))
     (heap (snd (gaussian_chi_p tn dataset mu_chi_p sigma_chi_p s))) = heap s \<and>
   take (length (heap s))
     (heap (snd (GaussianChiEffChiP_call tn self dataset mu_chi_eff sigma_chi_eff mu_chi_p
        sigma_chi_p spin_covariance s))) = heap s"
proof (intro conjI)
  show "take (length (heap s))
     (heap (snd (iid_spin bd tn dataset xi_spin sigma_spin amax alpha_chi beta_chi s))) = heap s"
    by (rule framedD [OF framed_iid_spin])
  show "take (length (heap s))
     (heap (snd (iid_spin_magnitude_beta bd dataset amax alpha_chi beta_chi s))) = heap s"
    unfolding iid_spin_magnitude_beta_def by (rule framedD [OF framed_magnitude])
  show "take (length (heap s))
     (heap (snd (independent_spin_magnitude_beta bd dataset alpha_chi_1 alpha_chi_2 beta_chi_1
        beta_chi_2 amax_1 amax_2 s))) = heap s"
    by (rule framedD [OF framed_magnitude])
  show "take (length (heap s))
     (heap (snd (iid_spin_orientation_gaussian_isotropic tn dataset xi_spin sigma_spin s))) = heap s"
    unfolding iid_spin_orientation_gaussian_isotropic_def by (rule framedD [OF framed_orientation])
  show "take (length (heap s))
     (heap (snd (independent_spin_orientation_gaussian_isotropic tn dataset xi_spin sigma_1
        sigma_2 s))) = heap s"
    by (rule framedD [OF framed_orientation])
  show "take (length (heap s))
     (heap (snd (gaussian_chi_eff tn dataset mu_chi_eff sigma_chi_eff s))) = heap s"
    by (rule framedD [OF framed_gaussian_chi_eff])
  show "take (length (heap s))
     (heap (snd (gaussian_chi_p tn dataset mu_chi_p sigma_chi_p s))) = heap s"
    by (rule framedD [OF framed_gaussian_chi_p])
  show "take (length (heap s))
     (heap (snd (GaussianChiEffChiP_call tn self dataset mu_chi_eff sigma_chi_eff mu_chi_p
        sigma_chi_p spin_covariance s))) = heap s"
    by (rule framedD [OF framed_call])
qed

text \<open>
  C10. \<open>independent_spin_magnitude_beta\<close> returns the integer \<open>0\<close> exactly when one of
  the four shape parameters is negative. When all four are at least \<open>0\<close>, the value \<open>0\<close>
  included, and the dataset has the key \<open>a_1\<close>, the next recorded call is that of
  \<open>beta_dist\<close> on \<open>a_1\<close> with \<open>alpha_chi_1, beta_chi_1, amax_1\<close>.
\<close>

theorem magnitude_zero_iff_negative:
  "(fst (independent_spin_magnitude_beta bd dataset alpha_chi_1 alpha_chi_2 beta_chi_1 beta_chi_2
           amax_1 amax_2 s) = Inr (PyInt 0))
     = (alpha_chi_1 < 0 \<or> beta_chi_1 < 0 \<or> alpha_chi_2 < 0 \<or> beta_chi_2 < 0)
   \<and> (0 \<le> alpha_chi_1 \<and> 0 \<le> beta_chi_1 \<and> 0 \<le> alpha_chi_2 \<and> 0 \<le> beta_chi_2 \<and>
        dataset ''a_1'' = Some a \<longrightarrow>
        take (Suc (length (calls s)))
          (calls (snd (independent_spin_magnitude_beta bd dataset alpha_chi_1 alpha_chi_2
             beta_chi_1 beta_chi_2 amax_1 amax_2 s)))
        = calls s @ [BetaDist a alpha_chi_1 beta_chi_1 amax_1])"
  by (simp add: independent_spin_magnitude_beta_def beta_dist_run py_defs bop_def not_less
      split: option.splits)

theorem magnitude_zero_iff_negative_witness:
  "(0::real) \<le> 0 \<and> example_dataset ''a_1'' = Some 4 \<and>
   fst (independent_spin_magnitude_beta flat_beta example_dataset 0 0 0 0 1 1 example_store)
     \<noteq> Inr (PyInt 0) \<and>
   take (Suc (length (calls example_store)))
     (calls (snd (independent_spin_magnitude_beta flat_beta example_dataset 0 0 0 0 1 1
        example_store)))
     = calls example_store @ [BetaDist 4 0 0 1]"
  using magnitude_zero_iff_negative [of flat_beta example_dataset 0 0 0 0 1 1 example_store 4]
  by (simp add: example_dataset_def)

end
